theory Spec2Isabelle
  imports Complex_Main "HOL-Library.Multiset" "HOL-Library.Product_Lexorder"
begin

section \<open>JavaScript built-ins used by the pages\<close>

text \<open>
  A JavaScript string is modelled as a \<^typ>\<open>string\<close>: one \<^typ>\<open>char\<close> per code unit, which
  covers the code units \<open>0 .. 255\<close>. A JavaScript number that holds an integer is modelled
  as an \<^typ>\<open>int\<close>; the model is exact for magnitudes below \<open>2 ^ 53\<close>, where a double holds
  every integer. \<open>NaN\<close> is \<^term>\<open>None\<close> of an \<^typ>\<open>int option\<close>.
\<close>

definition code_unit :: "char \<Rightarrow> nat" where
  "code_unit c = of_char c"

definition isWhiteSpace :: "char \<Rightarrow> bool" where
  \<comment> \<open>the white space and line terminators of ECMAScript below 256\<close>
  "isWhiteSpace c = (code_unit c \<in> set [9, 10, 11, 12, 13, 32, 160])"

definition isDigit :: "char \<Rightarrow> bool" where
  "isDigit c = (48 \<le> code_unit c \<and> code_unit c \<le> 57)"

definition digitValue :: "char \<Rightarrow> int" where
  "digitValue c = int (code_unit c) - 48"

definition digitsValue :: "string \<Rightarrow> int" where
  "digitsValue ds = foldl (\<lambda>acc c. acc * 10 + digitValue c) 0 ds"

definition parseInt10 :: "string \<Rightarrow> int option" where
  \<comment> \<open>\<open>parseInt(p, 10)\<close>: skip white space, read a sign, read the longest run of decimal
      digits; no digit gives \<open>NaN\<close>\<close>
  "parseInt10 p =
     (let s = dropWhile isWhiteSpace p;
          sign = (case s of c # _ \<Rightarrow> if c = CHR ''-'' then - 1 else 1 | [] \<Rightarrow> 1);
          rest = (case s of c # cs \<Rightarrow> if c = CHR ''-'' \<or> c = CHR ''+'' then cs else s | [] \<Rightarrow> s);
          ds = takeWhile isDigit rest
      in if ds = [] then None else Some (sign * digitsValue ds))"

fun split_acc :: "char \<Rightarrow> string \<Rightarrow> string \<Rightarrow> string list" where
  "split_acc sep acc [] = [rev acc]"
| "split_acc sep acc (c # cs) =
     (if c = sep then rev acc # split_acc sep [] cs else split_acc sep (c # acc) cs)"

definition split :: "string \<Rightarrow> char \<Rightarrow> string list" where
  \<comment> \<open>\<open>s.split(sep)\<close> for a one-character separator; the empty string gives \<open>[""]\<close>\<close>
  "split s sep = split_acc sep [] s"

section \<open>VersionComparator\<close>

definition version_parts :: "string \<Rightarrow> int list" where
  \<comment> \<open>\<open>v.split('.').map((p) => parseInt(p, 10) || 0)\<close>\<close>
  "version_parts v =
     map (\<lambda>p. case parseInt10 p of None \<Rightarrow> 0 | Some n \<Rightarrow> n) (split v CHR ''.'')"

definition part_at :: "int list \<Rightarrow> nat \<Rightarrow> int" where
  \<comment> \<open>\<open>parts[i] || 0\<close>: reading past the end gives \<open>undefined\<close>, which is replaced by 0\<close>
  "part_at parts i = (if i < length parts then parts ! i else 0)"

function compareVersions_loop :: "int list \<Rightarrow> int list \<Rightarrow> nat \<Rightarrow> nat \<Rightarrow> int" where
  "compareVersions_loop parts1 parts2 maxLength i =
     (if i < maxLength then
        (let num1 = part_at parts1 i; num2 = part_at parts2 i
         in if num1 > num2 then 1
            else if num1 < num2 then - 1
            else compareVersions_loop parts1 parts2 maxLength (i + 1))
      else 0)"
  by pat_completeness auto
termination
  by (relation "measure (\<lambda>(parts1, parts2, maxLength, i). maxLength - i)") auto

declare compareVersions_loop.simps [simp del]

definition compareVersions :: "string \<Rightarrow> string \<Rightarrow> int" where
  "compareVersions v1 v2 =
     (let parts1 = version_parts v1;
          parts2 = version_parts v2;
          maxLength = max (length parts1) (length parts2)
      in compareVersions_loop parts1 parts2 maxLength 0)"


section \<open>More built-ins: case mapping, sets, sorting, radix-less parseInt\<close>

definition toLowerCase_unit :: "char \<Rightarrow> char" where
  \<comment> \<open>the lower-case mapping of Unicode on the code units below 256\<close>
  "toLowerCase_unit c =
     (let n = code_unit c
      in if (65 \<le> n \<and> n \<le> 90) \<or> (192 \<le> n \<and> n \<le> 222 \<and> n \<noteq> 215)
         then char_of (n + 32) else c)"

definition toLowerCase :: "string \<Rightarrow> string" where
  "toLowerCase s = map toLowerCase_unit s"

definition Array_from_Set :: "'a list \<Rightarrow> 'a list" where
  \<comment> \<open>\<open>Array.from(new Set(xs))\<close>: a set keeps each value once, in the order of the
      first insertion\<close>
  "Array_from_Set xs = foldl (\<lambda>seen x. if x \<in> set seen then seen else seen @ [x]) [] xs"

fun sort_insert :: "('a \<Rightarrow> 'a \<Rightarrow> int) \<Rightarrow> 'a \<Rightarrow> 'a list \<Rightarrow> 'a list" where
  "sort_insert cmp x [] = [x]"
| "sort_insert cmp x (y # ys) =
     (if cmp x y \<le> 0 then x # y # ys else y # sort_insert cmp x ys)"

definition array_sort :: "('a \<Rightarrow> 'a \<Rightarrow> int) \<Rightarrow> 'a list \<Rightarrow> 'a list" where
  \<comment> \<open>\<open>xs.sort(cmp)\<close>: the sort of ECMAScript is stable; an element moves behind
      another only where the comparator returns a positive number\<close>
  "array_sort cmp xs = foldr (sort_insert cmp) xs []"

fun lex_compare :: "('a::linorder) list \<Rightarrow> 'a list \<Rightarrow> int" where
  "lex_compare [] [] = 0"
| "lex_compare [] (y # ys) = - 1"
| "lex_compare (x # xs) [] = 1"
| "lex_compare (x # xs) (y # ys) =
     (if x > y then 1 else if x < y then - 1 else lex_compare xs ys)"

definition default_compare :: "string \<Rightarrow> string \<Rightarrow> int" where
  \<comment> \<open>the comparison of \<open>sort()\<close> without a comparator: strings by code units\<close>
  "default_compare a b = lex_compare (map code_unit a) (map code_unit b)"

definition isHexDigit :: "char \<Rightarrow> bool" where
  "isHexDigit c =
     (let n = code_unit c
      in (48 \<le> n \<and> n \<le> 57) \<or> (65 \<le> n \<and> n \<le> 70) \<or> (97 \<le> n \<and> n \<le> 102))"

definition hexDigitValue :: "char \<Rightarrow> int" where
  "hexDigitValue c =
     (let n = int (code_unit c)
      in if n \<le> 57 then n - 48 else if n \<le> 70 then n - 55 else n - 87)"

definition parseInt :: "string \<Rightarrow> int option" where
  \<comment> \<open>\<open>parseInt(s)\<close> without a radix: as \<open>parseInt(s, 10)\<close>, but a \<open>0x\<close> or \<open>0X\<close> after
      the sign switches to base 16\<close>
  "parseInt p =
     (let s = dropWhile isWhiteSpace p;
          sign = (case s of c # _ \<Rightarrow> if c = CHR ''-'' then - 1 else 1 | [] \<Rightarrow> 1);
          rest = (case s of c # cs \<Rightarrow> if c = CHR ''-'' \<or> c = CHR ''+'' then cs else s | [] \<Rightarrow> s)
      in if take 2 rest = ''0x'' \<or> take 2 rest = ''0X''
         then (let ds = takeWhile isHexDigit (drop 2 rest)
               in if ds = [] then None
                  else Some (sign * foldl (\<lambda>acc c. acc * 16 + hexDigitValue c) 0 ds))
         else (let ds = takeWhile isDigit rest
               in if ds = [] then None else Some (sign * digitsValue ds)))"

section \<open>The artifacts and the response of the backend\<close>

text \<open>
  \<open>Release\<close> and \<open>DevBuild\<close> share the three fields the catalog views read; the views are
  defined on every extension of \<open>artifact\<close>.
\<close>

record artifact =
  version :: string
  platform :: string
  build_id :: int

record Release = artifact +
  changelog :: string
  filename :: string
  file_size :: int
  upload_timestamp :: string

record DevBuild = artifact +
  commit_hash :: string
  author :: string
  commit_message :: string
  upload_timestamp :: string

text \<open>
  The body of a response is any JSON value. \<open>undefined\<close> is \<^term>\<open>None\<close> of a
  \<^typ>\<open>'a option\<close>. An object is the list of its properties, each key once.
\<close>

datatype json =
  JNull | JBool bool | JNum rat | JStr string | JArr "json list" | JObj "(string \<times> json) list"

datatype thrown =
  Error string  \<comment> \<open>an instance of \<open>Error\<close> (a \<open>TypeError\<close> is one) and its message\<close>
| NotAnError    \<comment> \<open>any other thrown value\<close>

definition null_read_message :: string where
  "null_read_message = ''Cannot read properties of null''"

definition data_of :: "json \<Rightarrow> thrown + json option" where
  \<comment> \<open>\<open>data.data\<close>: reading a property of \<open>null\<close> throws a \<open>TypeError\<close>, an object gives
      the property or \<open>undefined\<close>, any other value has no property \<open>data\<close>\<close>
  "data_of data =
     (case data of
        JNull \<Rightarrow> Inl (Error null_read_message)
      | JObj props \<Rightarrow> Inr (map_of props ''data'')
      | _ \<Rightarrow> Inr None)"

fun truthy :: "json option \<Rightarrow> bool" where
  "truthy None = False"
| "truthy (Some JNull) = False"
| "truthy (Some (JBool b)) = b"
| "truthy (Some (JNum n)) = (n \<noteq> 0)"
| "truthy (Some (JStr s)) = (s \<noteq> [])"
| "truthy (Some (JArr xs)) = True"
| "truthy (Some (JObj props)) = True"

record response =
  ok :: bool
  statusText :: string
  json_body :: "thrown + json"  \<comment> \<open>what \<open>response.json()\<close> settles to\<close>

type_synonym fetch_outcome = "thrown + response"  \<comment> \<open>\<open>fetch\<close> rejects or resolves\<close>


section \<open>CatalogStore of the releases page\<close>

text \<open>
  The state of the \<open>Releases\<close> component that the fetch and the views use
  (\<open>expandedReleases\<close> only drives the change-log panels). The fetched array is stored
  unchecked, so the element type is a parameter: \<^typ>\<open>json\<close> where the response is
  normalised, an extension of \<^typ>\<open>artifact\<close> where the views read its fields.
\<close>

record 'a ReleasesPage =
  releases :: "'a list"
  loading :: bool
  error :: "string option"
  selectedVersion :: string
  selectedPlatform :: string

definition releasesData :: "json \<Rightarrow> thrown + json list" where
  \<comment> \<open>\<open>Array.isArray(data.data) ? data.data : (data ? [data] : [])\<close>\<close>
  "releasesData data =
     (case data_of data of
        Inl err \<Rightarrow> Inl err
      | Inr d \<Rightarrow>
          Inr (case d of
                 Some (JArr xs) \<Rightarrow> xs
               | _ \<Rightarrow> if truthy (Some data) then [data] else []))"

definition fetchReleases_try :: "fetch_outcome \<Rightarrow> thrown + json list" where
  \<comment> \<open>the \<open>try\<close> block: what it hands to \<open>setReleases\<close>, or what it throws\<close>
  "fetchReleases_try outcome =
     (case outcome of
        Inl err \<Rightarrow> Inl err
      | Inr response \<Rightarrow>
          if \<not> ok response
          then Inl (Error (''Failed to fetch releases: '' @ statusText response))
          else (case json_body response of
                  Inl err \<Rightarrow> Inl err
                | Inr data \<Rightarrow> releasesData data))"

definition error_message :: "string \<Rightarrow> thrown \<Rightarrow> string" where
  \<comment> \<open>\<open>err instanceof Error ? err.message : fallback\<close>\<close>
  "error_message fallback err = (case err of Error message \<Rightarrow> message | NotAnError \<Rightarrow> fallback)"

definition fetchReleases_begin :: "'a ReleasesPage \<Rightarrow> 'a ReleasesPage" where
  \<comment> \<open>\<open>setLoading(true); setError(null)\<close>, before the request\<close>
  "fetchReleases_begin st = st\<lparr>ReleasesPage.loading := True, ReleasesPage.error := None\<rparr>"

definition fetchReleases_end :: "'a ReleasesPage \<Rightarrow> thrown + 'a list \<Rightarrow> 'a ReleasesPage" where
  \<comment> \<open>the end of the \<open>try\<close> block, or the \<open>catch\<close> block; then \<open>finally\<close>\<close>
  "fetchReleases_end st r =
     (case r of
        Inr rs \<Rightarrow> st\<lparr>ReleasesPage.releases := rs, ReleasesPage.loading := False\<rparr>
      | Inl err \<Rightarrow>
          st\<lparr>ReleasesPage.error := Some (error_message ''Failed to load releases'' err),
             ReleasesPage.releases := [],
             ReleasesPage.loading := False\<rparr>)"

definition fetchReleases :: "json ReleasesPage \<Rightarrow> fetch_outcome \<Rightarrow> json ReleasesPage" where
  "fetchReleases st outcome =
     fetchReleases_end (fetchReleases_begin st) (fetchReleases_try outcome)"

section \<open>CatalogStore of the dev-builds page\<close>

record 'a DevBuildsPage =
  builds :: "'a list"
  loading :: bool
  error :: "string option"
  selectedVersion :: string
  selectedPlatform :: string

definition buildsData :: "json \<Rightarrow> thrown + json list" where
  \<comment> \<open>\<open>Array.isArray(data.data) ? data.data : (data.data ? [data.data] : [])\<close>\<close>
  "buildsData data =
     (case data_of data of
        Inl err \<Rightarrow> Inl err
      | Inr d \<Rightarrow>
          Inr (case d of
                 Some (JArr xs) \<Rightarrow> xs
               | Some v \<Rightarrow> if truthy d then [v] else []
               | None \<Rightarrow> []))"

definition fetchBuilds_try :: "fetch_outcome \<Rightarrow> thrown + json list" where
  "fetchBuilds_try outcome =
     (case outcome of
        Inl err \<Rightarrow> Inl err
      | Inr response \<Rightarrow>
          if \<not> ok response
          then Inl (Error (''Failed to fetch dev builds: '' @ statusText response))
          else (case json_body response of
                  Inl err \<Rightarrow> Inl err
                | Inr data \<Rightarrow> buildsData data))"

definition fetchBuilds_begin :: "'a DevBuildsPage \<Rightarrow> 'a DevBuildsPage" where
  "fetchBuilds_begin st = st\<lparr>DevBuildsPage.loading := True, DevBuildsPage.error := None\<rparr>"

definition fetchBuilds_end :: "'a DevBuildsPage \<Rightarrow> thrown + 'a list \<Rightarrow> 'a DevBuildsPage" where
  "fetchBuilds_end st r =
     (case r of
        Inr bs \<Rightarrow> st\<lparr>DevBuildsPage.builds := bs, DevBuildsPage.loading := False\<rparr>
      | Inl err \<Rightarrow>
          st\<lparr>DevBuildsPage.error := Some (error_message ''Failed to load dev builds'' err),
             DevBuildsPage.builds := [],
             DevBuildsPage.loading := False\<rparr>)"

definition fetchBuilds :: "json DevBuildsPage \<Rightarrow> fetch_outcome \<Rightarrow> json DevBuildsPage" where
  "fetchBuilds st outcome = fetchBuilds_end (fetchBuilds_begin st) (fetchBuilds_try outcome)"

section \<open>FilterEngine\<close>

definition release_order :: "'a artifact_scheme \<Rightarrow> 'a artifact_scheme \<Rightarrow> int" where
  \<comment> \<open>the comparator handed to \<open>result.sort\<close>, the same text on both pages\<close>
  "release_order a b =
     (let versionDiff = compareVersions (artifact.version b) (artifact.version a)
      in if versionDiff \<noteq> 0 then versionDiff
         else artifact.build_id b - artifact.build_id a)"


definition availablePlatforms :: "'a artifact_scheme ReleasesPage \<Rightarrow> string list" where
  "availablePlatforms st =
     (let uniquePlatforms = Array_from_Set (map artifact.platform (ReleasesPage.releases st))
      in array_sort default_compare uniquePlatforms)"

definition processedReleases :: "'a artifact_scheme ReleasesPage \<Rightarrow> 'a artifact_scheme list" where
  "processedReleases st =
     (let result = ReleasesPage.releases st;
          result = (if ReleasesPage.selectedVersion st \<noteq> []
                    then filter (\<lambda>r. artifact.version r = ReleasesPage.selectedVersion st) result
                    else result);
          result = (if ReleasesPage.selectedPlatform st \<noteq> []
                    then filter (\<lambda>r. artifact.platform r = ReleasesPage.selectedPlatform st) result
                    else result)
      in array_sort release_order result)"

definition handlePlatformFilter :: "'a ReleasesPage \<Rightarrow> string \<Rightarrow> 'a ReleasesPage" where
  \<comment> \<open>\<open>setSelectedPlatform(prev => prev === plat ? '' : plat)\<close>\<close>
  "handlePlatformFilter st plat =
     st\<lparr>ReleasesPage.selectedPlatform :=
          (if ReleasesPage.selectedPlatform st = plat then [] else plat)\<rparr>"


definition builds_availablePlatforms :: "'a artifact_scheme DevBuildsPage \<Rightarrow> string list" where
  "builds_availablePlatforms st =
     (let uniquePlatforms = Array_from_Set (map artifact.platform (DevBuildsPage.builds st))
      in array_sort default_compare uniquePlatforms)"

definition processedBuilds :: "'a artifact_scheme DevBuildsPage \<Rightarrow> 'a artifact_scheme list" where
  "processedBuilds st =
     (let result = DevBuildsPage.builds st;
          result = (if DevBuildsPage.selectedVersion st \<noteq> []
                    then filter (\<lambda>b. artifact.version b = DevBuildsPage.selectedVersion st) result
                    else result);
          result = (if DevBuildsPage.selectedPlatform st \<noteq> []
                    then filter (\<lambda>b. artifact.platform b = DevBuildsPage.selectedPlatform st) result
                    else result)
      in array_sort release_order result)"

definition builds_handlePlatformFilter :: "'a DevBuildsPage \<Rightarrow> string \<Rightarrow> 'a DevBuildsPage" where
  "builds_handlePlatformFilter st plat =
     st\<lparr>DevBuildsPage.selectedPlatform :=
          (if DevBuildsPage.selectedPlatform st = plat then [] else plat)\<rparr>"


section \<open>DownloadWizard\<close>

record PlatformMeta =
  id_field :: string  \<comment> \<open>the field \<open>id\<close>\<close>
  name :: string
  description :: string

record ApiRelease =
  version :: string
  platform :: string
  build_id :: string
  size_field :: "string option"  \<comment> \<open>the optional field \<open>size\<close>\<close>
  file_size :: string
  releaseDate :: "string option"
  release_date :: "string option"

definition PLATFORMS_META :: "PlatformMeta list" where
  "PLATFORMS_META =
     [\<lparr>id_field = ''paper'', name = ''Paper'', description = ''High-performance server''\<rparr>,
      \<lparr>id_field = ''purpur'', name = ''Purpur'', description = ''Feature-rich server''\<rparr>,
      \<lparr>id_field = ''fabric'', name = ''Fabric'', description = ''Lightweight mod loader''\<rparr>]"

text \<open>
  The state of the \<open>DownloadModal\<close> component: its \<open>useState\<close> cells, the property
  \<open>isOpen\<close> that the parent sets, whether the 300 ms time-out of the closing branch is
  pending, and how many requests are in flight.
\<close>

record 'a DownloadModal =
  isOpen :: bool
  step :: nat
  selectedVersion :: string
  selectedPlatform :: string
  releases :: "'a list"
  isLoading :: bool
  error :: bool
  isDownloading :: bool
  resetTimer :: bool
  inFlight :: nat

definition DownloadModal_mount :: "'a DownloadModal" where
  \<comment> \<open>the initial values of the cells, mounted closed: the effect has armed the time-out\<close>
  "DownloadModal_mount =
     \<lparr>isOpen = False, step = 1, selectedVersion = [], selectedPlatform = [],
      releases = [], isLoading = True, error = False, isDownloading = False,
      resetTimer = True, inFlight = 0\<rparr>"

definition wizard_releasesData :: "json \<Rightarrow> thrown + json list" where
  \<comment> \<open>\<open>Array.isArray(data.data) ? data.data : []\<close>\<close>
  "wizard_releasesData data =
     (case data_of data of
        Inl err \<Rightarrow> Inl err
      | Inr d \<Rightarrow> Inr (case d of Some (JArr xs) \<Rightarrow> xs | _ \<Rightarrow> []))"

definition wizard_fetch_try :: "fetch_outcome \<Rightarrow> thrown + json list" where
  \<comment> \<open>the two \<open>then\<close> callbacks up to the argument of \<open>setReleases\<close>\<close>
  "wizard_fetch_try outcome =
     (case outcome of
        Inl err \<Rightarrow> Inl err
      | Inr res \<Rightarrow>
          if \<not> ok res then Inl (Error ''Failed to fetch'')
          else (case json_body res of
                  Inl err \<Rightarrow> Inl err
                | Inr data \<Rightarrow> wizard_releasesData data))"

definition effect_open :: "'a DownloadModal \<Rightarrow> 'a DownloadModal" where
  \<comment> \<open>the effect when \<open>isOpen\<close> has become true: the clean-up of the closing branch
      clears the time-out, the cells are set, the request leaves\<close>
  "effect_open st =
     st\<lparr>isOpen := True, resetTimer := False,
        isLoading := True, error := False, isDownloading := False,
        inFlight := inFlight st + 1\<rparr>"

definition effect_closed :: "'a DownloadModal \<Rightarrow> 'a DownloadModal" where
  "effect_closed st = st\<lparr>isOpen := False, resetTimer := True\<rparr>"

definition timer_reset :: "'a DownloadModal \<Rightarrow> 'a DownloadModal" where
  \<comment> \<open>the body of the time-out\<close>
  "timer_reset st =
     st\<lparr>step := 1, selectedVersion := [], selectedPlatform := [], isDownloading := False,
        resetTimer := False\<rparr>"

definition fetch_settled :: "'a DownloadModal \<Rightarrow> thrown + 'a list \<Rightarrow> 'a DownloadModal" where
  \<comment> \<open>the last \<open>then\<close> callback, or the \<open>catch\<close> callback\<close>
  "fetch_settled st r =
     (case r of
        Inr rs \<Rightarrow> st\<lparr>releases := rs, isLoading := False, inFlight := inFlight st - 1\<rparr>
      | Inl err \<Rightarrow> st\<lparr>error := True, isLoading := False, inFlight := inFlight st - 1\<rparr>)"

definition wizard_fetch :: "json DownloadModal \<Rightarrow> fetch_outcome \<Rightarrow> json DownloadModal" where
  \<comment> \<open>one fetch cycle: the modal opens and its request settles\<close>
  "wizard_fetch st outcome = fetch_settled (effect_open st) (wizard_fetch_try outcome)"

subsection \<open>The version list of step 1\<close>

text \<open>
  \<open>a.localeCompare(b, undefined, {numeric: true, sensitivity: 'base'})\<close> is a built-in
  of the host. It is modelled where its result is fixed by numeric ordering alone: on
  strings whose code units are ASCII digits and \<open>.\<close>, with at most 254 digits between
  two dots. There a run of digits is one collation element, ordered by the number it
  denotes; a \<open>.\<close> is one element, before every digit, and is not ignored; a proper
  prefix comes first. On any other pair of strings the result is the one of the host,
  \<open>host a b\<close>, a parameter of the model.
\<close>

definition collation_modelled :: "string \<Rightarrow> bool" where
  "collation_modelled s =
     list_all (\<lambda>p. list_all isDigit p \<and> length p \<le> 254) (split s CHR ''.'')"

fun collation_scan :: "nat option \<Rightarrow> string \<Rightarrow> (nat \<times> nat) list" where
  "collation_scan run [] = (case run of None \<Rightarrow> [] | Some n \<Rightarrow> [(48, n)])"
| "collation_scan run (c # cs) =
     (if isDigit c
      then collation_scan
             (Some ((case run of None \<Rightarrow> 0 | Some n \<Rightarrow> n) * 10 + (code_unit c - 48))) cs
      else (case run of None \<Rightarrow> [] | Some n \<Rightarrow> [(48, n)])
           @ (code_unit c, 0) # collation_scan None cs)"

definition localeCompare_numeric :: "(string \<Rightarrow> string \<Rightarrow> int) \<Rightarrow> string \<Rightarrow> string \<Rightarrow> int" where
  "localeCompare_numeric host a b =
     (if collation_modelled a \<and> collation_modelled b
      then lex_compare (collation_scan None a) (collation_scan None b)
      else host a b)"

definition uniqueVersions :: "(string \<Rightarrow> string \<Rightarrow> int) \<Rightarrow> ApiRelease DownloadModal \<Rightarrow> string list" where
  "uniqueVersions host st =
     (let versions = Array_from_Set (map version (releases st))
      in array_sort (\<lambda>a b. localeCompare_numeric host b a) versions)"

subsection \<open>Handlers\<close>

definition handleVersionSelect :: "'a DownloadModal \<Rightarrow> string \<Rightarrow> 'a DownloadModal" where
  "handleVersionSelect st v = st\<lparr>selectedVersion := v, step := 2\<rparr>"

definition handlePlatformSelect :: "'a DownloadModal \<Rightarrow> string \<Rightarrow> 'a DownloadModal" where
  "handlePlatformSelect st p = st\<lparr>selectedPlatform := p, step := 3\<rparr>"

definition handleDownloadClick :: "'a DownloadModal \<Rightarrow> string \<Rightarrow> 'a DownloadModal" where
  \<comment> \<open>the click on the temporary anchor leaves the state alone\<close>
  "handleDownloadClick st href = st\<lparr>isDownloading := True\<rparr>"

definition isAvailable :: "ApiRelease DownloadModal \<Rightarrow> PlatformMeta \<Rightarrow> bool" where
  "isAvailable st p =
     list_ex (\<lambda>r. version r = selectedVersion st
                \<and> toLowerCase (platform r) = toLowerCase (id_field p))
       (releases st)"

definition findRelease :: "ApiRelease DownloadModal \<Rightarrow> ApiRelease option" where
  \<comment> \<open>the \<open>releases.find\<close> of \<open>getDownloadData\<close>\<close>
  "findRelease st =
     find (\<lambda>d. version d = selectedVersion st
              \<and> toLowerCase (platform d) = toLowerCase (selectedPlatform st))
       (releases st)"

record DownloadData =
  link :: string
  size_field :: string  \<comment> \<open>the field \<open>size\<close>\<close>
  date :: string

definition getDownloadData :: "string \<Rightarrow> ApiRelease DownloadModal \<Rightarrow> DownloadData option" where
  \<comment> \<open>\<open>today\<close> is \<open>new Date().toISOString().split('T')[0]\<close>; the link is a non-empty
      string, so its \<open>|| '404'\<close> never applies\<close>
  "getDownloadData today st =
     (case findRelease st of
        None \<Rightarrow> None
      | Some data \<Rightarrow>
          Some \<lparr>link = ''https://api.pulsemc.dev/release/download/'' @ build_id data,
                size_field =
                  (case ApiRelease.size_field data of
                     Some s \<Rightarrow> if s \<noteq> [] then s
                               else if file_size data \<noteq> [] then file_size data else ''0''
                   | None \<Rightarrow> if file_size data \<noteq> [] then file_size data else ''0''),
                date =
                  (case releaseDate data of
                     Some d \<Rightarrow> if d \<noteq> [] then d
                               else (case release_date data of
                                       Some e \<Rightarrow> if e \<noteq> [] then e else today
                                     | None \<Rightarrow> today)
                   | None \<Rightarrow> (case release_date data of
                                Some e \<Rightarrow> if e \<noteq> [] then e else today
                              | None \<Rightarrow> today))\<rparr>)"

text \<open>
  \<open>formatBytes\<close> returns \<open>'0 Bytes'\<close> where \<open>!+bytes\<close> holds, that is for \<open>NaN\<close> and 0.
  For any other number it builds the text with \<open>Math.log\<close> and \<open>toFixed\<close> in floating
  point; that text is kept as \<open>Scaled\<close> of the number.
\<close>

datatype size_text = Text string | Scaled int

definition formatBytes :: "int option \<Rightarrow> size_text" where
  "formatBytes bytes =
     (case bytes of
        None \<Rightarrow> Text ''0 Bytes''
      | Some n \<Rightarrow> if n = 0 then Text ''0 Bytes'' else Scaled n)"

definition size_row :: "string \<Rightarrow> ApiRelease DownloadModal \<Rightarrow> size_text option" where
  \<comment> \<open>the row \<open>Size:\<close> of step 3, \<open>formatBytes(parseInt(downloadData.size))\<close>; nothing is
      rendered where \<open>downloadData\<close> is \<open>null\<close>\<close>
  "size_row today st =
     (if step st = 3
      then (case getDownloadData today st of
              None \<Rightarrow> None
            | Some downloadData \<Rightarrow> Some (formatBytes (parseInt (DownloadData.size_field downloadData))))
      else None)"

subsection \<open>What the user and the host can do\<close>

text \<open>
  The buttons of a step exist only while that step is rendered: not while loading, not
  after a failed fetch. The first argument of the functions that read the version list
  is the collation of the host.
\<close>

definition rendered :: "'a DownloadModal \<Rightarrow> nat \<Rightarrow> bool" where
  "rendered st s = (\<not> isLoading st \<and> \<not> error st \<and> step st = s)"

definition click_version ::
  "(string \<Rightarrow> string \<Rightarrow> int) \<Rightarrow> ApiRelease DownloadModal \<Rightarrow> string \<Rightarrow> ApiRelease DownloadModal" where
  "click_version host st v =
     (if rendered st 1 \<and> v \<in> set (uniqueVersions host st) then handleVersionSelect st v else st)"

definition click_platform :: "ApiRelease DownloadModal \<Rightarrow> PlatformMeta \<Rightarrow> ApiRelease DownloadModal" where
  \<comment> \<open>\<open>onClick={() => isAvailable && handlePlatformSelect(platform.id)}\<close> on the button of
      an entry of \<open>PLATFORMS_META\<close>\<close>
  "click_platform st p =
     (if rendered st 2 \<and> p \<in> set PLATFORMS_META \<and> isAvailable st p
      then handlePlatformSelect st (id_field p) else st)"

definition click_back_to_versions :: "'a DownloadModal \<Rightarrow> 'a DownloadModal" where
  "click_back_to_versions st = (if rendered st 2 then st\<lparr>step := 1\<rparr> else st)"

definition click_change_platform :: "ApiRelease DownloadModal \<Rightarrow> ApiRelease DownloadModal" where
  "click_change_platform st =
     (if rendered st 3 \<and> findRelease st \<noteq> None then st\<lparr>step := 2\<rparr> else st)"

definition click_download :: "string \<Rightarrow> ApiRelease DownloadModal \<Rightarrow> ApiRelease DownloadModal" where
  "click_download today st =
     (if rendered st 3
      then (case getDownloadData today st of
              None \<Rightarrow> st
            | Some downloadData \<Rightarrow> handleDownloadClick st (link downloadData))
      else st)"

datatype event =
  SetOpen bool  \<comment> \<open>the parent changes \<open>isOpen\<close>\<close>
| TimerFires
| FetchSettles "thrown + ApiRelease list"
| ClickVersion string
| ClickPlatform PlatformMeta
| ClickBackToVersions
| ClickChangePlatform
| ClickDownload string

fun wizard_event ::
  "(string \<Rightarrow> string \<Rightarrow> int) \<Rightarrow> ApiRelease DownloadModal \<Rightarrow> event \<Rightarrow> ApiRelease DownloadModal" where
  "wizard_event host st (SetOpen b) =
     (if b = isOpen st then st else if b then effect_open st else effect_closed st)"
| "wizard_event host st TimerFires = (if resetTimer st then timer_reset st else st)"
| "wizard_event host st (FetchSettles r) = (if 0 < inFlight st then fetch_settled st r else st)"
| "wizard_event host st (ClickVersion v) = click_version host st v"
| "wizard_event host st (ClickPlatform p) = click_platform st p"
| "wizard_event host st ClickBackToVersions = click_back_to_versions st"
| "wizard_event host st ClickChangePlatform = click_change_platform st"
| "wizard_event host st (ClickDownload today) = click_download today st"

definition wizard_run :: "(string \<Rightarrow> string \<Rightarrow> int) \<Rightarrow> event list \<Rightarrow> ApiRelease DownloadModal" where
  "wizard_run host evs = foldl (wizard_event host) DownloadModal_mount evs"

section \<open>Predicates of the specification\<close>

definition keeps :: "string \<Rightarrow> string \<Rightarrow> 'a artifact_scheme \<Rightarrow> bool" where
  \<comment> \<open>an artifact passes the two filters: an empty filter passes everything, any other
      filter passes the exact match\<close>
  "keeps sv sp r =
     ((sv = [] \<or> artifact.version r = sv) \<and> (sp = [] \<or> artifact.platform r = sp))"

definition newer_first :: "'a artifact_scheme \<Rightarrow> 'a artifact_scheme \<Rightarrow> bool" where
  \<comment> \<open>\<open>a\<close> may stand before \<open>b\<close>: version descending by VersionComparator, then
      \<open>build_id\<close> descending\<close>
  "newer_first a b =
     (compareVersions (artifact.version a) (artifact.version b) = 1
      \<or> (compareVersions (artifact.version a) (artifact.version b) = 0
         \<and> artifact.build_id b \<le> artifact.build_id a))"





definition platform_ids :: "string set" where
  "platform_ids = {''paper'', ''purpur'', ''fabric''}"

definition wizard_inv :: "ApiRelease DownloadModal \<Rightarrow> bool" where
  \<comment> \<open>what every step of the wizard preserves\<close>
  "wizard_inv st =
     (selectedPlatform st \<in> insert [] platform_ids
      \<and> (step st = 3 \<longrightarrow> selectedPlatform st \<in> platform_ids))"

section \<open>States for the examples\<close>

definition no_collation :: "string \<Rightarrow> string \<Rightarrow> int" where
  \<comment> \<open>stands for the collation of the host in the examples; none of them reaches it\<close>
  "no_collation a b = 0"

definition release_1_20_paper :: ApiRelease where
  "release_1_20_paper =
     \<lparr>version = ''1.20'', platform = ''Paper'', build_id = ''41'', size_field = None,
      file_size = ''52428800'', releaseDate = None, release_date = Some ''2024-05-01''\<rparr>"

definition wizard_choosing_platform :: "ApiRelease DownloadModal" where
  \<comment> \<open>the wizard at step 2 with version 1.20 chosen; the catalog has one artifact\<close>
  "wizard_choosing_platform =
     \<lparr>isOpen = True, step = 2, selectedVersion = ''1.20'', selectedPlatform = [],
      releases = [release_1_20_paper], isLoading = False, error = False,
      isDownloading = False, resetTimer = False, inFlight = 0\<rparr>"

definition wizard_confirming :: "ApiRelease \<Rightarrow> ApiRelease DownloadModal" where
  \<comment> \<open>the wizard at step 3 for a catalog of one artifact, which is the chosen one\<close>
  "wizard_confirming r =
     \<lparr>isOpen = True, step = 3, selectedVersion = version r, selectedPlatform = ''paper'',
      releases = [r], isLoading = False, error = False,
      isDownloading = False, resetTimer = False, inFlight = 0\<rparr>"



section \<open>Properties of VersionComparator\<close>

lemma lex_compare_range: "lex_compare xs ys \<in> {- 1, 0, 1}"
  by (induction xs ys rule: lex_compare.induct) auto

lemma lex_compare_refl: "lex_compare xs xs = 0"
  by (induction xs) auto

lemma lex_compare_flip: "lex_compare xs ys = - lex_compare ys xs"
  by (induction xs ys rule: lex_compare.induct) auto

lemma lex_compare_trans:
  "lex_compare xs ys \<le> 0 \<Longrightarrow> lex_compare ys zs \<le> 0 \<Longrightarrow> lex_compare xs zs \<le> 0"
proof (induction xs ys arbitrary: zs rule: lex_compare.induct)
  case 1
  then show ?case by simp
next
  case (2 y ys)
  then show ?case by (cases zs) auto
next
  case (3 x xs)
  then show ?case by simp
next
  case (4 x xs y ys)
  show ?case
  proof (cases zs)
    case Nil
    with 4 show ?thesis by simp
  next
    case (Cons z zs')
    with 4 show ?thesis
      by (auto split: if_splits)
  qed
qed

lemma lex_compare_append:
  "length xs = length ys \<Longrightarrow>
   lex_compare (xs @ us) (ys @ vs) =
     (if lex_compare xs ys = 0 then lex_compare us vs else lex_compare xs ys)"
  by (induction xs ys rule: list_induct2) auto

text \<open>The loop compares the two lists of segments, each read as 0 past its end.\<close>

lemma compareVersions_loop_lex:
  "compareVersions_loop p1 p2 n i =
     lex_compare (map (part_at p1) [i..<n]) (map (part_at p2) [i..<n])"
proof (induction p1 p2 n i rule: compareVersions_loop.induct)
  case (1 p1 p2 n i)
  show ?case
  proof (cases "i < n")
    case True
    then have u: "[i..<n] = i # [i + 1..<n]"
      by (simp add: upt_conv_Cons)
    show ?thesis
      using 1 True
      by (subst compareVersions_loop.simps) (simp add: u Let_def)
  next
    case False
    then show ?thesis
      by (subst compareVersions_loop.simps) simp
  qed
qed

lemma lex_compare_pad:
  assumes "length p1 \<le> n" "length p2 \<le> n" "n \<le> m"
  shows "lex_compare (map (part_at p1) [0..<m]) (map (part_at p2) [0..<m]) =
         lex_compare (map (part_at p1) [0..<n]) (map (part_at p2) [0..<n])"
proof -
  have s: "[0..<m] = [0..<n] @ [n..<m]"
    using assms(3) by (metis le_add_diff_inverse upt_add_eq_append zero_le)
  have t: "map (part_at p1) [n..<m] = map (part_at p2) [n..<m]"
    using assms(1,2) by (simp add: part_at_def)
  show ?thesis
    by (simp add: s t lex_compare_append lex_compare_refl)
qed

lemma compareVersions_padded:
  assumes "length (version_parts a) \<le> n" "length (version_parts b) \<le> n"
  shows "compareVersions a b =
         lex_compare (map (part_at (version_parts a)) [0..<n])
                     (map (part_at (version_parts b)) [0..<n])"
proof -
  let ?k = "max (length (version_parts a)) (length (version_parts b))"
  have "compareVersions a b =
        lex_compare (map (part_at (version_parts a)) [0..<?k])
                    (map (part_at (version_parts b)) [0..<?k])"
    by (simp add: compareVersions_def Let_def compareVersions_loop_lex)
  also have "\<dots> = lex_compare (map (part_at (version_parts a)) [0..<n])
                              (map (part_at (version_parts b)) [0..<n])"
    by (rule lex_compare_pad [symmetric]) (use assms in auto)
  finally show ?thesis .
qed

lemma compareVersions_range: "compareVersions a b \<in> {- 1, 0, 1}"
proof -
  let ?n = "max (length (version_parts a)) (length (version_parts b))"
  have "compareVersions a b =
        lex_compare (map (part_at (version_parts a)) [0..<?n])
                    (map (part_at (version_parts b)) [0..<?n])"
    by (rule compareVersions_padded) auto
  then show ?thesis
    using lex_compare_range by metis
qed

lemma compareVersions_refl: "compareVersions a a = 0"
  using compareVersions_padded [of a "length (version_parts a)" a]
  by (simp add: lex_compare_refl)

lemma compareVersions_flip: "compareVersions a b = - compareVersions b a"
proof -
  let ?n = "max (length (version_parts a)) (length (version_parts b))"
  let ?k = "\<lambda>v. map (part_at (version_parts v)) [0..<?n]"
  have "compareVersions a b = lex_compare (?k a) (?k b)"
    by (rule compareVersions_padded) auto
  moreover have "compareVersions b a = lex_compare (?k b) (?k a)"
    by (rule compareVersions_padded) auto
  ultimately show ?thesis
    using lex_compare_flip [of "?k a" "?k b"] by simp
qed

lemma compareVersions_trans:
  assumes "compareVersions a b \<le> 0" "compareVersions b c \<le> 0"
  shows "compareVersions a c \<le> 0"
proof -
  let ?n = "max (length (version_parts a))
              (max (length (version_parts b)) (length (version_parts c)))"
  let ?k = "\<lambda>v. map (part_at (version_parts v)) [0..<?n]"
  have ab: "compareVersions a b = lex_compare (?k a) (?k b)"
    by (rule compareVersions_padded) auto
  have bc: "compareVersions b c = lex_compare (?k b) (?k c)"
    by (rule compareVersions_padded) auto
  have ac: "compareVersions a c = lex_compare (?k a) (?k c)"
    by (rule compareVersions_padded) auto
  show ?thesis
    using assms lex_compare_trans [of "?k a" "?k b" "?k c"]
    unfolding ab bc ac by simp
qed

lemma compareVersions_strict_trans:
  assumes "compareVersions a b < 0" "compareVersions b c < 0"
  shows "compareVersions a c < 0"
proof (rule ccontr)
  assume "\<not> compareVersions a c < 0"
  then have "compareVersions c a \<le> 0"
    using compareVersions_flip [of a c] by simp
  moreover have "compareVersions a b \<le> 0"
    using assms(1) by simp
  ultimately have "compareVersions c b \<le> 0"
    by (rule compareVersions_trans)
  then show False
    using assms(2) compareVersions_flip [of b c] by simp
qed

text \<open>
  Claim C7. For all version strings \<open>a\<close>, \<open>b\<close> and \<open>c\<close>: \<open>compare(a, a)\<close> is 0;
  \<open>compare(a, b)\<close> is the negation of \<open>compare(b, a)\<close>; the ordering that the comparator
  induces is transitive, in its weak and in its strict form; and every result is
  one of -1, 0 and 1.
\<close>

theorem compareVersions_total_order:
  "compareVersions a a = 0
   \<and> compareVersions a b = - compareVersions b a
   \<and> (compareVersions a b \<le> 0 \<and> compareVersions b c \<le> 0 \<longrightarrow> compareVersions a c \<le> 0)
   \<and> (compareVersions a b < 0 \<and> compareVersions b c < 0 \<longrightarrow> compareVersions a c < 0)
   \<and> compareVersions a b \<in> {- 1, 0, 1}"
  using compareVersions_refl [of a] compareVersions_flip [of a b]
    compareVersions_trans [of a b c] compareVersions_strict_trans [of a b c]
    compareVersions_range [of a b]
  by blast

theorem compareVersions_total_order_witness:
  "compareVersions ''1.2'' ''1.10'' < 0 \<and> compareVersions ''1.10'' ''2'' < 0
   \<and> compareVersions ''1.2'' ''2'' < 0 \<and> compareVersions ''1.2'' ''2'' \<le> 0
   \<and> compareVersions ''1.2'' ''1.2'' = 0"
proof -
  have ab: "compareVersions ''1.2'' ''1.10'' < 0"
    by code_simp
  have bc: "compareVersions ''1.10'' ''2'' < 0"
    by code_simp
  show ?thesis
    using ab bc compareVersions_total_order [of "''1.2''" "''1.10''" "''2''"]
    by simp
qed

text \<open>
  Claim C8. The comparison is numeric on each segment and reads a missing trailing
  segment as zero: \<open>compare("1.10.0", "1.9.9")\<close> is 1, although the first string is
  the smaller one in the order of the code units, and \<open>compare("2.0", "2.0.0")\<close> is 0.
\<close>

theorem compareVersions_numeric_examples:
  "compareVersions ''1.10.0'' ''1.9.9'' = 1
   \<and> default_compare ''1.10.0'' ''1.9.9'' = - 1
   \<and> version_parts ''1.10.0'' = [1, 10, 0]
   \<and> version_parts ''2.0'' = [2, 0]
   \<and> compareVersions ''2.0'' ''2.0.0'' = 0"
  by code_simp

section \<open>Properties of FilterEngine\<close>

lemma mset_sort_insert: "mset (sort_insert cmp x xs) = add_mset x (mset xs)"
  by (induction xs) auto

lemma mset_array_sort: "mset (array_sort cmp xs) = mset xs"
  unfolding array_sort_def by (induction xs) (auto simp: mset_sort_insert)

lemma set_sort_insert: "set (sort_insert cmp x xs) = insert x (set xs)"
  by (induction xs) auto

lemma set_array_sort: "set (array_sort cmp xs) = set xs"
  unfolding array_sort_def by (induction xs) (auto simp: set_sort_insert)

lemma sorted_sort_insert:
  assumes total: "\<And>a b. cmp a b \<le> 0 \<or> cmp b a \<le> 0"
    and trans: "\<And>a b c. cmp a b \<le> 0 \<Longrightarrow> cmp b c \<le> 0 \<Longrightarrow> cmp a c \<le> 0"
    and sorted: "sorted_wrt (\<lambda>a b. cmp a b \<le> 0) xs"
  shows "sorted_wrt (\<lambda>a b. cmp a b \<le> 0) (sort_insert cmp x xs)"
  using sorted
proof (induction xs)
  case Nil
  then show ?case by simp
next
  case (Cons y ys)
  show ?case
  proof (cases "cmp x y \<le> 0")
    case True
    then have "\<forall>z\<in>set ys. cmp x z \<le> 0"
      using Cons.prems trans by auto
    with True Cons.prems show ?thesis by simp
  next
    case False
    then have "cmp y x \<le> 0"
      using total [of x y] by simp
    with False Cons show ?thesis
      by (auto simp: set_sort_insert)
  qed
qed

lemma sorted_array_sort:
  assumes total: "\<And>a b. cmp a b \<le> 0 \<or> cmp b a \<le> 0"
    and trans: "\<And>a b c. cmp a b \<le> 0 \<Longrightarrow> cmp b c \<le> 0 \<Longrightarrow> cmp a c \<le> 0"
  shows "sorted_wrt (\<lambda>a b. cmp a b \<le> 0) (array_sort cmp xs)"
  unfolding array_sort_def
proof (induction xs)
  case Nil
  then show ?case by simp
next
  case (Cons x xs)
  then show ?case
    using sorted_sort_insert [of cmp "foldr (sort_insert cmp) xs []" x] total trans
    by simp
qed

lemma release_order_le:
  "release_order a b \<le> 0 \<longleftrightarrow> newer_first a b"
  using compareVersions_range [of "artifact.version a" "artifact.version b"]
    compareVersions_flip [of "artifact.version a" "artifact.version b"]
  by (auto simp: release_order_def newer_first_def Let_def)

lemma newer_first_total: "newer_first a b \<or> newer_first b a"
  using compareVersions_range [of "artifact.version a" "artifact.version b"]
    compareVersions_flip [of "artifact.version a" "artifact.version b"]
  by (auto simp: newer_first_def)

lemma newer_first_trans:
  assumes "newer_first a b" "newer_first b c"
  shows "newer_first a c"
proof -
  let ?a = "artifact.version a" and ?b = "artifact.version b" and ?c = "artifact.version c"
  have ab: "compareVersions ?b ?a \<le> 0"
    using assms(1) compareVersions_flip [of ?a ?b] by (auto simp: newer_first_def)
  have bc: "compareVersions ?c ?b \<le> 0"
    using assms(2) compareVersions_flip [of ?b ?c] by (auto simp: newer_first_def)
  have ca: "compareVersions ?c ?a \<le> 0"
    using bc ab by (rule compareVersions_trans)
  have r: "compareVersions ?a ?c \<in> {- 1, 0, 1}"
    by (rule compareVersions_range)
  show ?thesis
  proof (cases "compareVersions ?a ?c = 0")
    case False
    then show ?thesis
      using ca r compareVersions_flip [of ?a ?c] by (auto simp: newer_first_def)
  next
    case True
    then have ac: "compareVersions ?a ?c \<le> 0" by simp
    have "compareVersions ?a ?b \<le> 0"
      using ac bc by (rule compareVersions_trans)
    then have ab0: "compareVersions ?a ?b = 0"
      using ab compareVersions_flip [of ?a ?b] by simp
    have "compareVersions ?b ?c \<le> 0"
      using ab ac by (rule compareVersions_trans)
    then have bc0: "compareVersions ?b ?c = 0"
      using bc compareVersions_flip [of ?b ?c] by simp
    show ?thesis
      using True ab0 bc0 assms by (auto simp: newer_first_def)
  qed
qed

lemma sorted_release_order: "sorted_wrt newer_first (array_sort release_order xs)"
proof -
  have "sorted_wrt (\<lambda>a b. release_order a b \<le> 0) (array_sort release_order xs)"
  proof (rule sorted_array_sort)
    show "release_order a b \<le> 0 \<or> release_order b a \<le> 0" for a b :: "'a artifact_scheme"
      using newer_first_total [of a b] by (simp add: release_order_le)
    show "release_order a b \<le> 0 \<Longrightarrow> release_order b c \<le> 0 \<Longrightarrow> release_order a c \<le> 0"
      for a b c :: "'a artifact_scheme"
      using newer_first_trans [of a b c] by (simp add: release_order_le)
  qed
  then show ?thesis
    by (simp add: release_order_le)
qed

lemma processedReleases_filter:
  "processedReleases st =
     array_sort release_order
       (filter (keeps (ReleasesPage.selectedVersion st) (ReleasesPage.selectedPlatform st))
          (ReleasesPage.releases st))"
  by (simp add: processedReleases_def Let_def keeps_def [abs_def])

lemma processedBuilds_filter:
  "processedBuilds st =
     array_sort release_order
       (filter (keeps (DevBuildsPage.selectedVersion st) (DevBuildsPage.selectedPlatform st))
          (DevBuildsPage.builds st))"
  by (simp add: processedBuilds_def Let_def keeps_def [abs_def])

lemma cv_examples:
  "compareVersions ''1.0'' ''1.0'' = 0" "compareVersions ''1.0'' ''2.0'' = - 1"
  "compareVersions ''2.0'' ''1.0'' = 1"
  by code_simp+

lemma example_sort:
  fixes r1 r2 r3 :: "'a artifact_scheme"
  assumes "artifact.version r1 = ''1.0''" "artifact.build_id r1 = 5"
    "artifact.version r2 = ''1.0''" "artifact.build_id r2 = 3"
    "artifact.version r3 = ''2.0''" "artifact.build_id r3 = 1"
  shows "array_sort release_order [r1, r2, r3] = [r3, r1, r2]"
  using assms by (simp add: array_sort_def release_order_def cv_examples)

text \<open>
  Claim C6. On both catalog pages the visible list holds exactly the artifacts of the
  catalog that match each non-empty filter exactly, each as often as the catalog
  holds it, and it is sorted by version descending (VersionComparator) with
  \<open>build_id\<close> descending as the tie-break. On the catalog
  \<open>[{1.0, 5}, {1.0, 3}, {2.0, 1}]\<close> without filters the order is
  \<open>[{2.0, 1}, {1.0, 5}, {1.0, 3}]\<close>, whatever the other fields hold.
\<close>

theorem visible_filtered_and_sorted:
  "mset (processedReleases st) =
     mset (filter (keeps (ReleasesPage.selectedVersion st) (ReleasesPage.selectedPlatform st))
             (ReleasesPage.releases st))
   \<and> sorted_wrt newer_first (processedReleases st)
   \<and> mset (processedBuilds bt) =
     mset (filter (keeps (DevBuildsPage.selectedVersion bt) (DevBuildsPage.selectedPlatform bt))
             (DevBuildsPage.builds bt))
   \<and> sorted_wrt newer_first (processedBuilds bt)
   \<and> processedReleases
        \<lparr>ReleasesPage.releases =
           [\<lparr>artifact.version = ''1.0'', platform = p1, build_id = 5, \<dots> = m1\<rparr>,
            \<lparr>artifact.version = ''1.0'', platform = p2, build_id = 3, \<dots> = m2\<rparr>,
            \<lparr>artifact.version = ''2.0'', platform = p3, build_id = 1, \<dots> = m3\<rparr>],
         loading = l, error = e, selectedVersion = [], selectedPlatform = []\<rparr>
      = [\<lparr>artifact.version = ''2.0'', platform = p3, build_id = 1, \<dots> = m3\<rparr>,
         \<lparr>artifact.version = ''1.0'', platform = p1, build_id = 5, \<dots> = m1\<rparr>,
         \<lparr>artifact.version = ''1.0'', platform = p2, build_id = 3, \<dots> = m2\<rparr>]
   \<and> processedBuilds
        \<lparr>builds =
           [\<lparr>artifact.version = ''1.0'', platform = p1, build_id = 5, \<dots> = m1\<rparr>,
            \<lparr>artifact.version = ''1.0'', platform = p2, build_id = 3, \<dots> = m2\<rparr>,
            \<lparr>artifact.version = ''2.0'', platform = p3, build_id = 1, \<dots> = m3\<rparr>],
         loading = l, error = e, selectedVersion = [], selectedPlatform = []\<rparr>
      = [\<lparr>artifact.version = ''2.0'', platform = p3, build_id = 1, \<dots> = m3\<rparr>,
         \<lparr>artifact.version = ''1.0'', platform = p1, build_id = 5, \<dots> = m1\<rparr>,
         \<lparr>artifact.version = ''1.0'', platform = p2, build_id = 3, \<dots> = m2\<rparr>]"
proof -
  have "keeps [] [] = (\<lambda>r :: 'c artifact_scheme. True)"
    by (simp add: keeps_def [abs_def])
  then show ?thesis
    by (simp add: processedReleases_filter processedBuilds_filter mset_array_sort
        sorted_release_order example_sort)
qed

theorem visible_filtered_and_sorted_witness:
  "mset (processedReleases
      \<lparr>ReleasesPage.releases =
         [\<lparr>artifact.version = ''1.0'', platform = ''paper'', build_id = 3\<rparr>,
          \<lparr>artifact.version = ''1.0'', platform = ''fabric'', build_id = 4\<rparr>,
          \<lparr>artifact.version = ''1.0'', platform = ''paper'', build_id = 5\<rparr>,
          \<lparr>artifact.version = ''2.0'', platform = ''paper'', build_id = 1\<rparr>],
       loading = False, error = None, selectedVersion = ''1.0'', selectedPlatform = ''paper''\<rparr>)
   = {#\<lparr>artifact.version = ''1.0'', platform = ''paper'', build_id = 3\<rparr>,
       \<lparr>artifact.version = ''1.0'', platform = ''paper'', build_id = 5\<rparr>#}
   \<and> sorted_wrt newer_first (processedReleases
      \<lparr>ReleasesPage.releases =
         [\<lparr>artifact.version = ''1.0'', platform = ''paper'', build_id = 3\<rparr>,
          \<lparr>artifact.version = ''1.0'', platform = ''fabric'', build_id = 4\<rparr>,
          \<lparr>artifact.version = ''1.0'', platform = ''paper'', build_id = 5\<rparr>,
          \<lparr>artifact.version = ''2.0'', platform = ''paper'', build_id = 1\<rparr>],
       loading = False, error = None, selectedVersion = ''1.0'', selectedPlatform = ''paper''\<rparr>)"
  (is "mset (processedReleases ?st) = _ \<and> _")
proof
  show "mset (processedReleases ?st) =
        {#\<lparr>artifact.version = ''1.0'', platform = ''paper'', build_id = 3\<rparr>,
          \<lparr>artifact.version = ''1.0'', platform = ''paper'', build_id = 5\<rparr>#}"
    using visible_filtered_and_sorted [of ?st, THEN conjunct1]
    by (simp add: keeps_def)
  show "sorted_wrt newer_first (processedReleases ?st)"
    by (rule visible_filtered_and_sorted [of ?st, THEN conjunct2, THEN conjunct1])
qed

section \<open>The platform filter\<close>

text \<open>
  Claim C9. The platform filter holds one value. For every state of the filter:
  selecting the platform that is active clears the filter, and the visible list is
  then the one without a platform filter; selecting any other platform replaces the
  filter with that platform; selecting a platform and then the same platform again
  leaves the filter cleared. The catalog and the version filter stay as they are.
\<close>

theorem platform_filter_toggle:
  "(ReleasesPage.selectedPlatform st = plat \<longrightarrow>
      ReleasesPage.selectedPlatform (handlePlatformFilter st plat) = []
      \<and> processedReleases (handlePlatformFilter st plat) =
          processedReleases (st\<lparr>ReleasesPage.selectedPlatform := []\<rparr>))
   \<and> (ReleasesPage.selectedPlatform st \<noteq> plat \<longrightarrow>
      ReleasesPage.selectedPlatform (handlePlatformFilter st plat) = plat)
   \<and> (ReleasesPage.selectedPlatform st \<noteq> plat \<longrightarrow>
      ReleasesPage.selectedPlatform (handlePlatformFilter (handlePlatformFilter st plat) plat) = []
      \<and> processedReleases (handlePlatformFilter (handlePlatformFilter st plat) plat) =
          processedReleases (st\<lparr>ReleasesPage.selectedPlatform := []\<rparr>))
   \<and> ReleasesPage.releases (handlePlatformFilter st plat) = ReleasesPage.releases st
   \<and> ReleasesPage.selectedVersion (handlePlatformFilter st plat) = ReleasesPage.selectedVersion st
   \<and> (DevBuildsPage.selectedPlatform bt = plat \<longrightarrow>
      DevBuildsPage.selectedPlatform (builds_handlePlatformFilter bt plat) = []
      \<and> processedBuilds (builds_handlePlatformFilter bt plat) =
          processedBuilds (bt\<lparr>DevBuildsPage.selectedPlatform := []\<rparr>))
   \<and> (DevBuildsPage.selectedPlatform bt \<noteq> plat \<longrightarrow>
      DevBuildsPage.selectedPlatform (builds_handlePlatformFilter bt plat) = plat)
   \<and> (DevBuildsPage.selectedPlatform bt \<noteq> plat \<longrightarrow>
      DevBuildsPage.selectedPlatform
        (builds_handlePlatformFilter (builds_handlePlatformFilter bt plat) plat) = []
      \<and> processedBuilds (builds_handlePlatformFilter (builds_handlePlatformFilter bt plat) plat) =
          processedBuilds (bt\<lparr>DevBuildsPage.selectedPlatform := []\<rparr>))
   \<and> DevBuildsPage.builds (builds_handlePlatformFilter bt plat) = DevBuildsPage.builds bt
   \<and> DevBuildsPage.selectedVersion (builds_handlePlatformFilter bt plat) =
       DevBuildsPage.selectedVersion bt"
  by (simp add: handlePlatformFilter_def builds_handlePlatformFilter_def)

theorem platform_filter_toggle_witness:
  "ReleasesPage.selectedPlatform
     (handlePlatformFilter
        \<lparr>ReleasesPage.releases = [] :: artifact list, loading = False, error = None,
         selectedVersion = [], selectedPlatform = ''paper''\<rparr> ''paper'') = []
   \<and> ReleasesPage.selectedPlatform
     (handlePlatformFilter
        \<lparr>ReleasesPage.releases = [] :: artifact list, loading = False, error = None,
         selectedVersion = [], selectedPlatform = ''paper''\<rparr> ''fabric'') = ''fabric''
   \<and> ReleasesPage.selectedPlatform
     (handlePlatformFilter
        (handlePlatformFilter
           \<lparr>ReleasesPage.releases = [] :: artifact list, loading = False, error = None,
            selectedVersion = [], selectedPlatform = ''paper''\<rparr> ''fabric'')
        ''fabric'') = []"
  (is "ReleasesPage.selectedPlatform (handlePlatformFilter ?st _) = _ \<and> _")
proof (intro conjI)
  have "ReleasesPage.selectedPlatform ?st = ''paper''"
    by simp
  then show "ReleasesPage.selectedPlatform (handlePlatformFilter ?st ''paper'') = []"
    using platform_filter_toggle [of ?st "''paper''", THEN conjunct1] by blast
  have other: "ReleasesPage.selectedPlatform ?st \<noteq> ''fabric''"
    by simp
  then show "ReleasesPage.selectedPlatform (handlePlatformFilter ?st ''fabric'') = ''fabric''"
    using platform_filter_toggle [of ?st "''fabric''", THEN conjunct2, THEN conjunct1] by blast
  show "ReleasesPage.selectedPlatform
          (handlePlatformFilter (handlePlatformFilter ?st ''fabric'') ''fabric'') = []"
    using other
      platform_filter_toggle [of ?st "''fabric''", THEN conjunct2, THEN conjunct2, THEN conjunct1]
    by blast
qed

section \<open>Properties of CatalogStore\<close>

lemma data_of_object: "data_of (JObj props) = Inr (map_of props ''data'')"
  by (simp add: data_of_def)

text \<open>
  Claim C1, as the code has it. The response is \<open>ok\<close> and its body is an object, the
  envelope. Where the field \<open>data\<close> is an array, each of the three fetches stores that
  array. Where \<open>data\<close> is a single object, the dev-builds page stores the one-element
  sequence of that object and the wizard stores the empty sequence. Where \<open>data\<close> is
  \<open>null\<close> or absent, the dev-builds page and the wizard store the empty sequence. No
  error is recorded in any of these cases.
\<close>

theorem envelope_normalised:
  "(map_of props ''data'' = Some (JArr xs) \<longrightarrow>
      ReleasesPage.releases (fetchReleases rt (Inr \<lparr>ok = True, statusText = t, json_body = Inr (JObj props)\<rparr>)) = xs
      \<and> ReleasesPage.error (fetchReleases rt (Inr \<lparr>ok = True, statusText = t, json_body = Inr (JObj props)\<rparr>)) = None
      \<and> builds (fetchBuilds bt (Inr \<lparr>ok = True, statusText = t, json_body = Inr (JObj props)\<rparr>)) = xs
      \<and> releases (wizard_fetch wt (Inr \<lparr>ok = True, statusText = t, json_body = Inr (JObj props)\<rparr>)) = xs)
   \<and> (map_of props ''data'' = Some (JObj obj) \<longrightarrow>
      builds (fetchBuilds bt (Inr \<lparr>ok = True, statusText = t, json_body = Inr (JObj props)\<rparr>)) = [JObj obj]
      \<and> releases (wizard_fetch wt (Inr \<lparr>ok = True, statusText = t, json_body = Inr (JObj props)\<rparr>)) = [])
   \<and> (map_of props ''data'' = Some JNull \<or> map_of props ''data'' = None \<longrightarrow>
      builds (fetchBuilds bt (Inr \<lparr>ok = True, statusText = t, json_body = Inr (JObj props)\<rparr>)) = []
      \<and> releases (wizard_fetch wt (Inr \<lparr>ok = True, statusText = t, json_body = Inr (JObj props)\<rparr>)) = [])
   \<and> DevBuildsPage.error (fetchBuilds bt (Inr \<lparr>ok = True, statusText = t, json_body = Inr (JObj props)\<rparr>)) = None
   \<and> error (wizard_fetch wt (Inr \<lparr>ok = True, statusText = t, json_body = Inr (JObj props)\<rparr>)) = False"
  by (auto simp: fetchReleases_def fetchReleases_try_def fetchReleases_begin_def
      fetchReleases_end_def releasesData_def fetchBuilds_def fetchBuilds_try_def
      fetchBuilds_begin_def fetchBuilds_end_def buildsData_def wizard_fetch_def
      wizard_fetch_try_def wizard_releasesData_def fetch_settled_def effect_open_def
      data_of_object split: option.splits json.splits)


theorem envelope_normalised_witness:
  "builds (fetchBuilds
      \<lparr>builds = [], loading = False, error = None, selectedVersion = [], selectedPlatform = []\<rparr>
      (Inr \<lparr>ok = True, statusText = ''OK'',
            json_body = Inr (JObj [(''data'', JObj [(''build_id'', JNum 7)])])\<rparr>))
   = [JObj [(''build_id'', JNum 7)]]
   \<and> releases (wizard_fetch DownloadModal_mount
      (Inr \<lparr>ok = True, statusText = ''OK'',
            json_body = Inr (JObj [(''data'', JArr [JObj [(''build_id'', JNum 7)]])])\<rparr>))
   = [JObj [(''build_id'', JNum 7)]]"
proof
  have "map_of [(''data'', JObj [(''build_id'', JNum 7)])] ''data''
        = Some (JObj [(''build_id'', JNum 7)])"
    by simp
  then show "builds (fetchBuilds
      \<lparr>builds = [], loading = False, error = None, selectedVersion = [], selectedPlatform = []\<rparr>
      (Inr \<lparr>ok = True, statusText = ''OK'',
            json_body = Inr (JObj [(''data'', JObj [(''build_id'', JNum 7)])])\<rparr>))
   = [JObj [(''build_id'', JNum 7)]]"
    using envelope_normalised
      [where props = "[(''data'', JObj [(''build_id'', JNum 7)])]"
         and obj = "[(''build_id'', JNum 7)]", THEN conjunct2, THEN conjunct1]
    by blast
  have "map_of [(''data'', JArr [JObj [(''build_id'', JNum 7)]])] ''data''
        = Some (JArr [JObj [(''build_id'', JNum 7)]])"
    by simp
  then show "releases (wizard_fetch DownloadModal_mount
      (Inr \<lparr>ok = True, statusText = ''OK'',
            json_body = Inr (JObj [(''data'', JArr [JObj [(''build_id'', JNum 7)]])])\<rparr>))
   = [JObj [(''build_id'', JNum 7)]]"
    using envelope_normalised
      [where props = "[(''data'', JArr [JObj [(''build_id'', JNum 7)]])]"
         and xs = "[JObj [(''build_id'', JNum 7)]]", THEN conjunct1]
    by blast
qed

text \<open>
  The envelope \<open>{"data": {"build_id": 7}}\<close> holds a single object. The wizard stores
  the empty sequence for it, not the one-element sequence of that object.
\<close>

theorem envelope_single_object_counterexample:
  "releases (wizard_fetch DownloadModal_mount
      (Inr \<lparr>ok = True, statusText = ''OK'',
            json_body = Inr (JObj [(''data'', JObj [(''build_id'', JNum 7)])])\<rparr>))
   \<noteq> [JObj [(''build_id'', JNum 7)]]"
  by (simp add: wizard_fetch_def wizard_fetch_try_def wizard_releasesData_def
      fetch_settled_def effect_open_def data_of_def DownloadModal_mount_def)

text \<open>
  The releases page reads the whole body where the dev-builds page reads its field
  \<open>data\<close>: for the same envelope it stores the envelope itself, and for
  \<open>{"data": null}\<close> it stores the envelope too.
\<close>

lemma releases_page_stores_the_envelope:
  "map_of props ''data'' \<noteq> None \<Longrightarrow> (\<forall>xs. map_of props ''data'' \<noteq> Some (JArr xs)) \<Longrightarrow>
   releasesData (JObj props) = Inr [JObj props]"
  by (auto simp: releasesData_def data_of_def split: option.splits json.splits)


text \<open>
  Claim C3, as the code has it. On the releases page and on the dev-builds page a
  fetch cycle sets the loading flag before the request and clears it afterwards,
  whatever the outcome; on any failure (\<open>fetch\<close> rejects, the status is not 2xx, the
  body cannot be read) the artifact list becomes empty and the recorded message is the
  one of the failure: the text that ends in the HTTP status text, the message of the
  exception, or the fixed fall-back text for a thrown value that is no \<open>Error\<close>. The
  wizard sets and clears its loading flag in the same way; on a failure it sets its
  error flag, which is a boolean and carries no message, and it keeps the artifact
  list that it had.
\<close>

theorem fetch_cycle_flags:
  "ReleasesPage.loading (fetchReleases_begin rt)
   \<and> \<not> ReleasesPage.loading (fetchReleases rt outcome)
   \<and> (fetchReleases_try outcome = Inl err \<longrightarrow>
        ReleasesPage.releases (fetchReleases rt outcome) = []
        \<and> ReleasesPage.error (fetchReleases rt outcome) =
            Some (error_message ''Failed to load releases'' err))
   \<and> (\<not> ok response \<longrightarrow>
        fetchReleases_try (Inr response) =
          Inl (Error (''Failed to fetch releases: '' @ statusText response)))
   \<and> fetchReleases_try (Inl err) = Inl err
   \<and> (ok response \<and> json_body response = Inl err \<longrightarrow> fetchReleases_try (Inr response) = Inl err)
   \<and> DevBuildsPage.loading (fetchBuilds_begin bt)
   \<and> \<not> DevBuildsPage.loading (fetchBuilds bt outcome)
   \<and> (fetchBuilds_try outcome = Inl err \<longrightarrow>
        builds (fetchBuilds bt outcome) = []
        \<and> DevBuildsPage.error (fetchBuilds bt outcome) =
            Some (error_message ''Failed to load dev builds'' err))
   \<and> (\<not> ok response \<longrightarrow>
        fetchBuilds_try (Inr response) =
          Inl (Error (''Failed to fetch dev builds: '' @ statusText response)))
   \<and> fetchBuilds_try (Inl err) = Inl err
   \<and> (ok response \<and> json_body response = Inl err \<longrightarrow> fetchBuilds_try (Inr response) = Inl err)
   \<and> error_message fallback (Error message) = message
   \<and> error_message fallback NotAnError = fallback
   \<and> isLoading (effect_open wt)
   \<and> \<not> isLoading (wizard_fetch wt outcome)
   \<and> (wizard_fetch_try outcome = Inl err \<longrightarrow>
        error (wizard_fetch wt outcome) \<and> releases (wizard_fetch wt outcome) = releases wt)
   \<and> (\<not> ok response \<longrightarrow> wizard_fetch_try (Inr response) = Inl (Error ''Failed to fetch''))
   \<and> wizard_fetch_try (Inl err) = Inl err
   \<and> (ok response \<and> json_body response = Inl err \<longrightarrow> wizard_fetch_try (Inr response) = Inl err)"
  by (simp add: fetchReleases_def fetchReleases_try_def fetchReleases_begin_def
      fetchReleases_end_def fetchBuilds_def fetchBuilds_try_def
      fetchBuilds_begin_def fetchBuilds_end_def wizard_fetch_def
      wizard_fetch_try_def fetch_settled_def effect_open_def error_message_def
      split: sum.splits)

theorem fetch_cycle_flags_witness:
  "ReleasesPage.error
     (fetchReleases
        \<lparr>ReleasesPage.releases = [JNull], loading = False, error = None,
         selectedVersion = [], selectedPlatform = []\<rparr>
        (Inr \<lparr>ok = False, statusText = ''Not Found'', json_body = Inl NotAnError\<rparr>))
   = Some ''Failed to fetch releases: Not Found''
   \<and> ReleasesPage.releases
     (fetchReleases
        \<lparr>ReleasesPage.releases = [JNull], loading = False, error = None,
         selectedVersion = [], selectedPlatform = []\<rparr>
        (Inr \<lparr>ok = False, statusText = ''Not Found'', json_body = Inl NotAnError\<rparr>))
   = []"
  (is "ReleasesPage.error (fetchReleases ?st (Inr ?res)) = _ \<and> _")
proof -
  have bad: "\<not> ok ?res"
    by simp
  have failed: "fetchReleases_try (Inr ?res) = Inl (Error (''Failed to fetch releases: '' @ statusText ?res))"
    using bad fetch_cycle_flags [where response = "?res", THEN conjunct2, THEN conjunct2,
        THEN conjunct2, THEN conjunct1]
    by blast
  show ?thesis
    using failed
      fetch_cycle_flags [where rt = "?st" and outcome = "Inr ?res"
        and err = "Error (''Failed to fetch releases: '' @ statusText ?res)",
        THEN conjunct2, THEN conjunct2, THEN conjunct1]
    by (simp add: error_message_def)
qed

text \<open>
  The wizard holds one artifact from an earlier fetch; the next fetch fails with
  status 500. The list is not cleared.
\<close>

theorem wizard_failure_keeps_list_counterexample:
  "releases
     (wizard_fetch (DownloadModal_mount\<lparr>releases := [JObj [(''build_id'', JNum 7)]]\<rparr>)
        (Inr \<lparr>ok = False, statusText = ''Internal Server Error'', json_body = Inl NotAnError\<rparr>))
   \<noteq> []"
  by (simp add: wizard_fetch_def wizard_fetch_try_def fetch_settled_def effect_open_def
      DownloadModal_mount_def)

section \<open>The platform step of the DownloadWizard\<close>

lemma isAvailable_iff:
  "isAvailable st p \<longleftrightarrow>
     (\<exists>r\<in>set (releases st). version r = selectedVersion st
        \<and> toLowerCase (platform r) = toLowerCase (id_field p))"
  by (simp add: isAvailable_def list_ex_iff)

lemma click_platform_step:
  assumes "step st = 2" "step (click_platform st p) = 3"
  shows "p \<in> set PLATFORMS_META \<and> isAvailable st p
         \<and> selectedPlatform (click_platform st p) = id_field p"
  using assms by (auto simp: click_platform_def handlePlatformSelect_def split: if_splits)

lemma other_events_keep_step_below_3:
  assumes "step st = 2" "\<forall>p. ev \<noteq> ClickPlatform p"
  shows "step (wizard_event host st ev) \<noteq> 3"
  using assms
  by (cases ev)
    (auto simp: effect_open_def effect_closed_def timer_reset_def fetch_settled_def
      click_version_def click_back_to_versions_def click_change_platform_def
      click_download_def rendered_def handleDownloadClick_def
      split: sum.splits option.splits)

text \<open>
  Claim C2. At step 2 the only event that leads to step 3 is the click on the button
  of an entry of \<open>PLATFORMS_META\<close>, and only if some artifact of the wizard's catalog
  has exactly the selected version and a platform string that equals the entry's id
  after lower-casing both; \<open>selectedPlatform\<close> then is that id. A click on a platform
  without such an artifact leaves the whole state as it is: step 2, the same
  \<open>selectedPlatform\<close>.
\<close>

theorem platform_transition_guarded:
  "step st = 2 \<longrightarrow>
     (step (wizard_event host st ev) = 3 \<longrightarrow>
        (\<exists>p\<in>set PLATFORMS_META. ev = ClickPlatform p
           \<and> (\<exists>r\<in>set (releases st). version r = selectedVersion st
                 \<and> toLowerCase (platform r) = toLowerCase (id_field p))
           \<and> selectedPlatform (wizard_event host st ev) = id_field p))
     \<and> ((\<forall>r\<in>set (releases st). \<not> (version r = selectedVersion st
                 \<and> toLowerCase (platform r) = toLowerCase (id_field q)))
        \<longrightarrow> wizard_event host st (ClickPlatform q) = st
            \<and> step (wizard_event host st (ClickPlatform q)) = 2
            \<and> selectedPlatform (wizard_event host st (ClickPlatform q)) = selectedPlatform st)"
proof (intro impI conjI)
  assume s: "step st = 2" and t: "step (wizard_event host st ev) = 3"
  obtain p where ev: "ev = ClickPlatform p"
    using other_events_keep_step_below_3 [OF s, of ev host] t by blast
  have "p \<in> set PLATFORMS_META \<and> isAvailable st p
        \<and> selectedPlatform (click_platform st p) = id_field p"
    using click_platform_step [of st p] s t ev by simp
  then show "\<exists>p\<in>set PLATFORMS_META. ev = ClickPlatform p
           \<and> (\<exists>r\<in>set (releases st). version r = selectedVersion st
                 \<and> toLowerCase (platform r) = toLowerCase (id_field p))
           \<and> selectedPlatform (wizard_event host st ev) = id_field p"
    using ev by (auto simp: isAvailable_iff)
next
  assume s: "step st = 2"
    and n: "\<forall>r\<in>set (releases st). \<not> (version r = selectedVersion st
                 \<and> toLowerCase (platform r) = toLowerCase (id_field q))"
  then have "\<not> isAvailable st q"
    by (simp add: isAvailable_iff)
  then show same: "wizard_event host st (ClickPlatform q) = st"
    by (simp add: click_platform_def)
  show "step (wizard_event host st (ClickPlatform q)) = 2"
    using same s by simp
  show "selectedPlatform (wizard_event host st (ClickPlatform q)) = selectedPlatform st"
    using same by simp
qed


theorem platform_transition_guarded_witness:
  "step wizard_choosing_platform = 2
   \<and> step (wizard_event no_collation wizard_choosing_platform (ClickPlatform (PLATFORMS_META ! 0))) = 3
   \<and> selectedPlatform (wizard_event no_collation wizard_choosing_platform (ClickPlatform (PLATFORMS_META ! 0)))
       = ''paper''
   \<and> wizard_event no_collation wizard_choosing_platform (ClickPlatform (PLATFORMS_META ! 1))
       = wizard_choosing_platform"
proof -
  let ?st = wizard_choosing_platform
  let ?paper = "PLATFORMS_META ! 0" and ?purpur = "PLATFORMS_META ! 1"
  have s: "step ?st = 2"
    by code_simp
  have t: "step (wizard_event no_collation ?st (ClickPlatform ?paper)) = 3"
    by code_simp
  have n: "\<forall>r\<in>set (releases ?st). \<not> (version r = selectedVersion ?st
             \<and> toLowerCase (platform r) = toLowerCase (id_field ?purpur))"
    by code_simp
  have isPaper: "ClickPlatform ?paper = ClickPlatform p \<Longrightarrow> id_field p = ''paper''" for p
    by (auto simp: PLATFORMS_META_def)
  from platform_transition_guarded [of ?st no_collation "ClickPlatform ?paper" ?purpur] s t n
  have "(\<exists>p\<in>set PLATFORMS_META. ClickPlatform ?paper = ClickPlatform p
           \<and> selectedPlatform (wizard_event no_collation ?st (ClickPlatform ?paper)) = id_field p)
        \<and> wizard_event no_collation ?st (ClickPlatform ?purpur) = ?st"
    by blast
  then show ?thesis
    using s t isPaper by auto
qed

section \<open>The platforms and the size in the DownloadWizard\<close>

lemma set_Array_from_Set_acc:
  "set (foldl (\<lambda>seen x. if x \<in> set seen then seen else seen @ [x]) acc xs) = set acc \<union> set xs"
  by (induction xs arbitrary: acc) auto

lemma set_Array_from_Set: "set (Array_from_Set xs) = set xs"
  by (simp add: Array_from_Set_def set_Array_from_Set_acc)




lemma toLowerCase_platform_ids: "p \<in> platform_ids \<Longrightarrow> toLowerCase p = p"
  unfolding platform_ids_def by (elim insertE emptyE; hypsubst; code_simp)

lemma id_field_PLATFORMS_META: "p \<in> set PLATFORMS_META \<Longrightarrow> id_field p \<in> platform_ids"
  by (auto simp: PLATFORMS_META_def platform_ids_def)

lemma wizard_inv_mount: "wizard_inv DownloadModal_mount"
  by (simp add: wizard_inv_def DownloadModal_mount_def)

lemma wizard_inv_event: "wizard_inv st \<Longrightarrow> wizard_inv (wizard_event host st ev)"
proof (cases ev)
  case (ClickPlatform p)
  assume "wizard_inv st"
  then show ?thesis
    using ClickPlatform id_field_PLATFORMS_META [of p]
    by (auto simp: wizard_inv_def click_platform_def handlePlatformSelect_def)
qed (auto simp: wizard_inv_def effect_open_def effect_closed_def timer_reset_def
      fetch_settled_def click_version_def handleVersionSelect_def
      click_back_to_versions_def click_change_platform_def
      click_download_def rendered_def handleDownloadClick_def
      split: sum.splits option.splits)

lemma wizard_inv_run: "wizard_inv (wizard_run host evs)"
  unfolding wizard_run_def
  by (induction evs rule: rev_induct) (simp_all add: wizard_inv_mount wizard_inv_event)

lemma findRelease_platform:
  "findRelease st = Some r \<Longrightarrow>
   r \<in> set (releases st) \<and> toLowerCase (platform r) = toLowerCase (selectedPlatform st)"
  by (auto simp: findRelease_def find_Some_iff)

text \<open>
  Claim C10. Step 2 offers the fixed candidates \<open>paper\<close>, \<open>purpur\<close> and \<open>fabric\<close>. In
  every state that the wizard reaches from its mount, \<open>selectedPlatform\<close> is empty or
  one of the three ids, and the artifact that step 3 resolves has a platform string
  that is one of the three ids after lower-casing: an artifact with any other platform
  is never selected. The releases page offers the platforms of its catalog instead.
\<close>

theorem wizard_platforms_fixed:
  "map id_field PLATFORMS_META = [''paper'', ''purpur'', ''fabric'']
   \<and> selectedPlatform (wizard_run host evs) \<in> insert [] platform_ids
   \<and> (step (wizard_run host evs) = 3 \<and> findRelease (wizard_run host evs) = Some r \<longrightarrow>
        toLowerCase (platform r) \<in> platform_ids)
   \<and> (toLowerCase (platform r) \<notin> platform_ids \<longrightarrow>
        \<not> (step (wizard_run host evs) = 3 \<and> findRelease (wizard_run host evs) = Some r))
   \<and> set (availablePlatforms page) = artifact.platform ` set (ReleasesPage.releases page)
   \<and> set (builds_availablePlatforms bpage) = artifact.platform ` set (builds bpage)"
proof -
  have inv: "wizard_inv (wizard_run host evs)"
    by (rule wizard_inv_run)
  have sel: "toLowerCase (platform r) \<in> platform_ids"
    if "step (wizard_run host evs) = 3" "findRelease (wizard_run host evs) = Some r"
  proof -
    have "selectedPlatform (wizard_run host evs) \<in> platform_ids"
      using inv that(1) by (simp add: wizard_inv_def)
    then show ?thesis
      using findRelease_platform [OF that(2)] toLowerCase_platform_ids by simp
  qed
  show ?thesis
    using inv sel
    by (auto simp: wizard_inv_def PLATFORMS_META_def availablePlatforms_def
        builds_availablePlatforms_def set_array_sort set_Array_from_Set)
qed


theorem wizard_platforms_fixed_witness:
  "step (wizard_run no_collation
      [SetOpen True,
       FetchSettles (Inr [release_1_20_paper\<lparr>platform := ''folia''\<rparr>, release_1_20_paper]),
       ClickVersion ''1.20'', ClickPlatform (PLATFORMS_META ! 0)]) = 3
   \<and> findRelease (wizard_run no_collation
      [SetOpen True,
       FetchSettles (Inr [release_1_20_paper\<lparr>platform := ''folia''\<rparr>, release_1_20_paper]),
       ClickVersion ''1.20'', ClickPlatform (PLATFORMS_META ! 0)]) = Some release_1_20_paper
   \<and> toLowerCase (platform release_1_20_paper) \<in> platform_ids"
  (is "step (wizard_run no_collation ?evs) = 3 \<and> _")
proof -
  have s: "step (wizard_run no_collation ?evs) = 3"
    by code_simp
  have f: "findRelease (wizard_run no_collation ?evs) = Some release_1_20_paper"
    by code_simp
  show ?thesis
    using s f wizard_platforms_fixed [of no_collation ?evs release_1_20_paper] by blast
qed

lemma getDownloadData_size:
  "findRelease st = Some data \<Longrightarrow>
   map_option DownloadData.size_field (getDownloadData today st) =
     Some (case ApiRelease.size_field data of
             Some s \<Rightarrow> if s \<noteq> [] then s
                       else if file_size data \<noteq> [] then file_size data else ''0''
           | None \<Rightarrow> if file_size data \<noteq> [] then file_size data else ''0'')"
  by (simp add: getDownloadData_def)

text \<open>
  Claim C5, as the code has it. At step 3 the size of the descriptor is the field
  \<open>size\<close> of the matched artifact where that is a non-empty string, else its field
  \<open>file_size\<close> where that is non-empty, else the text \<open>0\<close>. Where this text does not
  parse to a number other than 0 (no size at all, a size that is no number, a size of
  0), the confirmation view shows \<open>0 Bytes\<close>.
\<close>

theorem download_size_resolved:
  "(findRelease st = Some data \<and> ApiRelease.size_field data = Some s \<and> s \<noteq> [] \<longrightarrow>
      map_option DownloadData.size_field (getDownloadData today st) = Some s)
   \<and> (findRelease st = Some data
        \<and> (ApiRelease.size_field data = None \<or> ApiRelease.size_field data = Some [])
        \<and> file_size data \<noteq> [] \<longrightarrow>
      map_option DownloadData.size_field (getDownloadData today st) = Some (file_size data))
   \<and> (findRelease st = Some data
        \<and> (ApiRelease.size_field data = None \<or> ApiRelease.size_field data = Some [])
        \<and> file_size data = [] \<longrightarrow>
      map_option DownloadData.size_field (getDownloadData today st) = Some ''0'')
   \<and> (step st = 3
        \<and> map_option DownloadData.size_field (getDownloadData today st) = Some text
        \<and> (parseInt text = None \<or> parseInt text = Some 0) \<longrightarrow>
      size_row today st = Some (Text ''0 Bytes''))"
proof -
  have row: "size_row today st = Some (Text ''0 Bytes'')"
    if "step st = 3"
      "map_option DownloadData.size_field (getDownloadData today st) = Some text"
      "parseInt text = None \<or> parseInt text = Some 0"
    using that by (auto simp: size_row_def formatBytes_def split: option.splits)
  show ?thesis
    using row by (auto simp: getDownloadData_size)
qed

theorem download_size_resolved_witness:
  "map_option DownloadData.size_field
     (getDownloadData ''2026-01-01'' (wizard_confirming release_1_20_paper)) = Some ''52428800''
   \<and> size_row ''2026-01-01''
       (wizard_confirming (release_1_20_paper\<lparr>file_size := ''unknown''\<rparr>))
     = Some (Text ''0 Bytes'')"
proof
  let ?st = "wizard_confirming release_1_20_paper"
  have f: "findRelease ?st = Some release_1_20_paper"
    by code_simp
  have n: "ApiRelease.size_field release_1_20_paper = None"
    by code_simp
  have z: "file_size release_1_20_paper = ''52428800''"
    by code_simp
  show "map_option DownloadData.size_field (getDownloadData ''2026-01-01'' ?st) = Some ''52428800''"
    using f n z
      download_size_resolved [of ?st release_1_20_paper _ "''2026-01-01''",
        THEN conjunct2, THEN conjunct1]
    by simp
next
  let ?r = "release_1_20_paper\<lparr>file_size := ''unknown''\<rparr>"
  let ?st = "wizard_confirming ?r"
  have s: "step ?st = 3"
    by code_simp
  have d: "map_option DownloadData.size_field (getDownloadData ''2026-01-01'' ?st) = Some ''unknown''"
    by code_simp
  have p: "parseInt ''unknown'' = None"
    by code_simp
  show "size_row ''2026-01-01'' ?st = Some (Text ''0 Bytes'')"
    using s d p
      download_size_resolved [of ?st _ _ "''2026-01-01''" "''unknown''",
        THEN conjunct2, THEN conjunct2, THEN conjunct2]
    by blast
qed

text \<open>
  Three catalogs of one artifact each: one without any size, one whose size is the
  text \<open>unknown\<close>, one of zero bytes. The confirmation view shows the same size row
  for all three.
\<close>

theorem unknown_size_shown_as_zero_counterexample:
  "size_row ''2026-01-01'' (wizard_confirming (release_1_20_paper\<lparr>file_size := []\<rparr>))
     = size_row ''2026-01-01'' (wizard_confirming (release_1_20_paper\<lparr>file_size := ''0''\<rparr>))
   \<and> size_row ''2026-01-01'' (wizard_confirming (release_1_20_paper\<lparr>file_size := ''unknown''\<rparr>))
     = size_row ''2026-01-01'' (wizard_confirming (release_1_20_paper\<lparr>file_size := ''0''\<rparr>))
   \<and> size_row ''2026-01-01'' (wizard_confirming (release_1_20_paper\<lparr>file_size := ''0''\<rparr>))
     = Some (Text ''0 Bytes'')"
  by code_simp

section \<open>The version list of the DownloadWizard\<close>











lemma map_part_at: "map (part_at xs) [0..<length xs] = xs"
  by (rule nth_equalityI) (simp_all add: part_at_def)

























lemma localeCompare_numeric_modelled:
  "collation_modelled a \<Longrightarrow> collation_modelled b \<Longrightarrow>
   localeCompare_numeric host a b = localeCompare_numeric no_collation a b"
  by (simp add: localeCompare_numeric_def)


end
